theory Spec2Isabelle
  imports Complex_Main "HOL-Library.AList"
begin

section \<open>Data model of app.py\<close>

text \<open>
  The module selects one of three GPIO backends when it is imported
  (\<^verbatim>\<open>GPIO_BACKEND\<close>); every handler branches on it, so it is a parameter of the model.
\<close>

datatype backend = Gpiozero | RPiGPIO | Mock

text \<open>
  Objects handed out by the libraries. A gpiozero device (OutputDevice, InputDevice,
  PWMOutputDevice) has a \<^verbatim>\<open>close\<close> method; the PWM object of RPi.GPIO and the PWM
  object built by \<^verbatim>\<open>MockGPIO.PWM\<close> have none. The number identifies the object.
\<close>

datatype handle = GzDevice nat | RpiPwm nat | MockPwm nat

fun has_close :: "handle \<Rightarrow> bool" where
  "has_close (GzDevice n) = True"
| "has_close (RpiPwm n) = False"
| "has_close (MockPwm n) = False"

text \<open>
  Calls that leave the module: gpiozero, RPi.GPIO (or the MockGPIO instance standing
  in for it) and \<^verbatim>\<open>time.sleep\<close>. Python floats are modelled by rationals (finite
  values only).
\<close>

datatype hw_call =
    NewOutputDevice int
  | NewInputDevice int "bool option"
  | NewPWMOutputDevice int rat
  | Close handle
  | DevOn handle
  | DevOff handle
  | GetValue handle
  | SetValue handle rat
  | SetFrequency handle rat
  | GpioSetupOut int
  | GpioSetupIn int string
  | GpioOutput int int
  | GpioInput int
  | GpioPWM int rat
  | PwmStart handle rat
  | PwmStop handle
  | ChangeDutyCycle handle rat
  | GpioCleanup
  | Sleep rat

datatype reply = Raises string | Returns int

text \<open>
  The hardware library is an oracle: what the k-th external call answers, given the
  call. Every run of a deterministic or nondeterministic driver is one such function.
\<close>

type_synonym driver = "nat \<Rightarrow> hw_call \<Rightarrow> reply"

datatype exn =
    KeyError string
  | ValueError string
  | OverflowError string
  | AttributeError string
  | TypeError string
  | DriverError string

text \<open>The f-strings passed to \<^verbatim>\<open>log_event\<close>, with their parameters.\<close>

datatype msg =
    CleanupPinError int exn
  | CleanupCompleted
  | EdgeDetected int string int
  | MonitorPinError int exn
  | PinConfigured int string string
  | ConfigError exn
  | PinSet int string
  | PinPulsed int rat
  | WriteError exn
  | PwmStarted int rat rat
  | PwmStopped int
  | PwmUpdated int rat
  | PwmError exn
  | MonitorStarted int
  | MonitorStopped int
  | MonitorError exn
  | ResetDone
  | ResetError exn
  | GetPinsError exn
  | ControllerStarted

record event =
  message :: msg
  level :: string

record pin_entry =
  mode :: string
  pvalue :: int
  pull :: string
  device :: "handle option"

record pwm_entry =
  pwm_device :: handle
  frequency :: rat
  duty_cycle :: rat

text \<open>
  The module's globals. Python dictionaries keep insertion order and
  \<^verbatim>\<open>cleanup_all\<close> iterates over their keys, so they are association lists.
  \<^verbatim>\<open>input_monitors\<close> is a Python set; the model keeps it as a duplicate-free list
  and iterates in insertion order. \<open>hw_log\<close> records every external call with its
  answer; \<open>mock_pins\<close> is \<^verbatim>\<open>MockGPIO._pins\<close> (the \<^verbatim>\<open>value\<close> entry).
\<close>

record state =
  pin_states :: "(int \<times> pin_entry) list"
  pwm_devices :: "(int \<times> pwm_entry) list"
  input_monitors :: "int list"
  event_queue :: "event list"
  monitor_running :: bool
  hw_log :: "(hw_call \<times> reply) list"
  mock_pins :: "(int \<times> int) list"

definition initial_state :: state where
  "initial_state = \<lparr>pin_states = [], pwm_devices = [], input_monitors = [],
     event_queue = [], monitor_running = False, hw_log = [], mock_pins = []\<rparr>"

definition VALID_PINS :: "int list" where
  "VALID_PINS = [2, 3, 4, 5, 6, 7, 8, 9, 10, 11, 12, 13, 14, 15, 16, 17, 18, 19, 20,
     21, 22, 23, 24, 25, 26, 27]"

definition PWM_PINS :: "int list" where
  "PWM_PINS = [12, 13, 18, 19]"

section \<open>Exceptions and state\<close>

text \<open>
  A block of statements either returns a value or raises, and in both cases leaves the
  globals as it mutated them up to that point.
\<close>

type_synonym 'a prog = "state \<Rightarrow> (exn + 'a) \<times> state"

definition ret :: "'a \<Rightarrow> 'a prog" where
  "ret x s = (Inr x, s)"

definition raise :: "exn \<Rightarrow> 'a prog" where
  "raise e s = (Inl e, s)"

definition bnd :: "'a prog \<Rightarrow> ('a \<Rightarrow> 'b prog) \<Rightarrow> 'b prog" where
  "bnd m f s = (case m s of (Inl e, s') \<Rightarrow> (Inl e, s') | (Inr x, s') \<Rightarrow> f x s')"

definition sq :: "'a prog \<Rightarrow> 'b prog \<Rightarrow> 'b prog" where
  "sq m n = bnd m (\<lambda>_. n)"

definition gets :: "(state \<Rightarrow> 'a) \<Rightarrow> 'a prog" where
  "gets f s = (Inr (f s), s)"

definition modify :: "(state \<Rightarrow> state) \<Rightarrow> unit prog" where
  "modify f s = (Inr (), f s)"

text \<open>An external call: the oracle answers, the call and its answer are logged.\<close>

definition hw :: "driver \<Rightarrow> hw_call \<Rightarrow> int prog" where
  "hw drv c s =
     (let r = drv (length (hw_log s)) c;
          s' = s\<lparr>hw_log := hw_log s @ [(c, r)]\<rparr>
      in case r of Raises e \<Rightarrow> (Inl (DriverError e), s') | Returns v \<Rightarrow> (Inr v, s'))"

definition hw_unit :: "driver \<Rightarrow> hw_call \<Rightarrow> unit prog" where
  "hw_unit drv c = bnd (hw drv c) (\<lambda>_. ret ())"

text \<open>A constructor call: the new object is identified by the position of the call.\<close>

definition hw_new :: "driver \<Rightarrow> (nat \<Rightarrow> handle) \<Rightarrow> hw_call \<Rightarrow> handle prog" where
  "hw_new drv mk c = bnd (gets (\<lambda>s. length (hw_log s))) (\<lambda>n. bnd (hw drv c) (\<lambda>_. ret (mk n)))"

text \<open>
  \<^verbatim>\<open>time.sleep\<close> converts its argument to a signed 64-bit count of nanoseconds and
  raises OverflowError when it does not fit; then it raises ValueError on a negative
  length; otherwise it returns when the time has passed. A sleep that raises takes no
  time and is not logged.
\<close>

definition sleep :: "rat \<Rightarrow> unit prog" where
  "sleep d =
     (if d * 1000000000 < - (2 ^ 63) \<or> 2 ^ 63 \<le> d * 1000000000 then
        raise (OverflowError ''timestamp out of range for platform time_t'')
      else if d < 0 then raise (ValueError ''sleep length must be non-negative'')
      else modify (\<lambda>s. s\<lparr>hw_log := hw_log s @ [(Sleep d, Returns 0)]\<rparr>))"

section \<open>The event queue\<close>

text \<open>
  \<^verbatim>\<open>event_queue = queue.Queue()\<close>: the constructor's \<^verbatim>\<open>maxsize\<close> defaults to 0.
  \<^verbatim>\<open>Queue.put_nowait\<close> raises \<^verbatim>\<open>queue.Full\<close> only when \<^verbatim>\<open>maxsize > 0\<close> and
  the queue holds \<^verbatim>\<open>maxsize\<close> items; otherwise it appends.
\<close>

definition event_queue_maxsize :: nat where
  "event_queue_maxsize = 0"

definition put_nowait :: "nat \<Rightarrow> 'a list \<Rightarrow> 'a \<Rightarrow> 'a list option" where
  "put_nowait maxsize q x =
     (if 0 < maxsize \<and> maxsize \<le> length q then None else Some (q @ [x]))"

definition log_event :: "msg \<Rightarrow> string \<Rightarrow> state \<Rightarrow> state" where
  "log_event m l s =
     (case put_nowait event_queue_maxsize (event_queue s) \<lparr>message = m, level = l\<rparr> of
        None \<Rightarrow> s
      | Some q \<Rightarrow> s\<lparr>event_queue := q\<rparr>)"

definition log :: "msg \<Rightarrow> string \<Rightarrow> unit prog" where
  "log m l = modify (log_event m l)"

section \<open>MockGPIO\<close>

definition mock_output :: "int \<Rightarrow> int \<Rightarrow> unit prog" where
  "mock_output pin v =
     modify (\<lambda>s. s\<lparr>hw_log := hw_log s @ [(GpioOutput pin v, Returns 0)],
                   mock_pins := (if pin \<in> fst ` set (mock_pins s)
                                 then AList.update pin v (mock_pins s) else mock_pins s)\<rparr>)"

definition mock_input :: "int \<Rightarrow> int prog" where
  "mock_input pin s =
     (let v = (case map_of (mock_pins s) pin of None \<Rightarrow> 0 | Some x \<Rightarrow> x)
      in (Inr v, s\<lparr>hw_log := hw_log s @ [(GpioInput pin, Returns v)]\<rparr>))"

text \<open>
  \<^verbatim>\<open>MockGPIO.PWM\<close> returns an instance of a class whose \<^verbatim>\<open>start\<close>,
  \<^verbatim>\<open>stop\<close> and \<^verbatim>\<open>ChangeDutyCycle\<close> are lambdas without a \<^verbatim>\<open>self\<close> parameter:
  calling one on the instance raises TypeError.
\<close>

definition mock_PWM :: "int \<Rightarrow> rat \<Rightarrow> handle prog" where
  "mock_PWM pin freq s =
     (Inr (MockPwm (length (hw_log s))),
      s\<lparr>hw_log := hw_log s @ [(GpioPWM pin freq, Returns 0)]\<rparr>)"

definition mock_pwm_method :: "'a prog" where
  "mock_pwm_method = raise (TypeError ''<lambda>() takes fewer positional arguments'')"

section \<open>Cleanup\<close>

definition cleanup_pin_body :: "driver \<Rightarrow> int \<Rightarrow> unit prog" where
  "cleanup_pin_body drv pin =
     sq (bnd (gets pin_states) (\<lambda>ps.
           case map_of ps pin of
             None \<Rightarrow> ret ()
           | Some st \<Rightarrow>
               sq (case device st of
                     None \<Rightarrow> ret ()
                   | Some d \<Rightarrow> if has_close d then hw_unit drv (Close d) else ret ())
                  (modify (\<lambda>s. s\<lparr>pin_states := AList.delete pin (pin_states s)\<rparr>))))
        (bnd (gets pwm_devices) (\<lambda>pw.
           case map_of pw pin of
             None \<Rightarrow> ret ()
           | Some info \<Rightarrow>
               sq (if has_close (pwm_device info) then hw_unit drv (Close (pwm_device info))
                   else ret ())
                  (modify (\<lambda>s. s\<lparr>pwm_devices := AList.delete pin (pwm_devices s)\<rparr>))))"

definition cleanup_pin :: "driver \<Rightarrow> int \<Rightarrow> state \<Rightarrow> state" where
  "cleanup_pin drv pin s =
     (case cleanup_pin_body drv pin s of
        (Inl e, s') \<Rightarrow> log_event (CleanupPinError pin e) ''error'' s'
      | (Inr u, s') \<Rightarrow> s')"

definition gpio_cleanup :: "driver \<Rightarrow> state \<Rightarrow> state" where
  "gpio_cleanup drv s = snd (hw drv GpioCleanup s)"

definition cleanup_all :: "backend \<Rightarrow> driver \<Rightarrow> state \<Rightarrow> state" where
  "cleanup_all b drv s0 =
     (let s1 = s0\<lparr>monitor_running := False\<rparr>;
          s2 = fold (cleanup_pin drv) (map fst (pin_states s1)) s1;
          s3 = fold (cleanup_pin drv) (map fst (pwm_devices s2)) s2;
          s4 = (if b = RPiGPIO then gpio_cleanup drv s3 else s3)
      in log_event CleanupCompleted ''info'' s4)"

section \<open>Requests and responses\<close>

text \<open>
  The JSON body of a request, key by key, after the conversion the handler applies to
  the key (\<^verbatim>\<open>int(...)\<close>, \<^verbatim>\<open>float(...)\<close>, \<^verbatim>\<open>.lower()\<close>): a key is absent,
  present with a value the conversion raises on, or present with a converted value.
  \<^verbatim>\<open>enable\<close> is only tested for truth, which never raises.
\<close>

datatype 'a field = Missing | Malformed | Given 'a

record request =
  data_pin :: "int field"
  data_mode :: "string field"
  data_pull :: "string field"
  data_action :: "string field"
  data_duration :: "rat field"
  data_loops :: "int field"
  data_frequency :: "rat field"
  data_duty_cycle :: "rat field"
  data_enable :: "bool option"

definition no_data :: request where
  "no_data = \<lparr>data_pin = Missing, data_mode = Missing, data_pull = Missing,
     data_action = Missing, data_duration = Missing, data_loops = Missing,
     data_frequency = Missing, data_duty_cycle = Missing, data_enable = None\<rparr>"

text \<open>\<^verbatim>\<open>conv(data[k])\<close> and \<^verbatim>\<open>conv(data.get(k, d))\<close>.\<close>

definition subscript :: "string \<Rightarrow> 'a field \<Rightarrow> 'a prog" where
  "subscript k f =
     (case f of Missing \<Rightarrow> raise (KeyError k) | Malformed \<Rightarrow> raise (ValueError k)
      | Given x \<Rightarrow> ret x)"

definition get_default :: "string \<Rightarrow> 'a \<Rightarrow> 'a field \<Rightarrow> 'a prog" where
  "get_default k d f =
     (case f of Missing \<Rightarrow> ret d | Malformed \<Rightarrow> raise (ValueError k) | Given x \<Rightarrow> ret x)"

datatype err =
    InvalidPin int
  | InvalidMode string
  | NotOutput int
  | InvalidAction string
  | DutyCycleRange
  | PwmNotActive int
  | NotInput int

text \<open>
  What a handler returns: \<^verbatim>\<open>{'success': True}\<close> (with \<^verbatim>\<open>monitoring\<close> for the
  monitor route), an error with status 400, or the error of the \<^verbatim>\<open>except\<close> clause
  with status 500.
\<close>

datatype response = Success | Monitoring bool | Error400 err | Error500 exn

text \<open>The \<^verbatim>\<open>try ... except Exception\<close> around every handler body.\<close>

definition handler :: "(exn \<Rightarrow> msg) \<Rightarrow> response prog \<Rightarrow> state \<Rightarrow> response \<times> state" where
  "handler errmsg body s =
     (case body s of
        (Inr r, s') \<Rightarrow> (r, s')
      | (Inl e, s') \<Rightarrow> (Error500 e, log_event (errmsg e) ''error'' s'))"

section \<open>Reading pins and the state query\<close>

definition read_pin_value :: "backend \<Rightarrow> driver \<Rightarrow> int \<Rightarrow> int prog" where
  "read_pin_value b drv pin =
     (case b of
        Gpiozero \<Rightarrow>
          bnd (gets pin_states) (\<lambda>ps.
            case (case map_of ps pin of None \<Rightarrow> None | Some st \<Rightarrow> device st) of
              Some d \<Rightarrow> bnd (hw drv (GetValue d)) (\<lambda>v. ret (if v \<noteq> 0 then 1 else 0))
            | None \<Rightarrow> ret 0)
      | RPiGPIO \<Rightarrow> hw drv (GpioInput pin)
      | Mock \<Rightarrow> mock_input pin)"

record pin_data =
  pd_mode :: string
  pd_value :: int
  pd_pull :: string
  pd_configured :: bool
  pd_pwm :: "(rat \<times> rat) option"

definition get_pin_data :: "backend \<Rightarrow> driver \<Rightarrow> int \<Rightarrow> (int \<times> pin_data) prog" where
  "get_pin_data b drv pin =
     bnd (gets pin_states) (\<lambda>ps.
       case map_of ps pin of
         Some st \<Rightarrow>
           bnd (if mode st = ''input'' then read_pin_value b drv pin else ret (pvalue st))
             (\<lambda>v. ret (pin, \<lparr>pd_mode = mode st, pd_value = v, pd_pull = pull st,
                               pd_configured = True, pd_pwm = None\<rparr>))
       | None \<Rightarrow>
           ret (pin, \<lparr>pd_mode = ''unconfigured'', pd_value = 0, pd_pull = ''off'',
                      pd_configured = False, pd_pwm = None\<rparr>))"

fun for_each :: "('a \<Rightarrow> 'b prog) \<Rightarrow> 'a list \<Rightarrow> 'b list prog" where
  "for_each f [] = ret []"
| "for_each f (x # xs) = bnd (f x) (\<lambda>y. bnd (for_each f xs) (\<lambda>ys. ret (y # ys)))"

definition add_pwm_status :: "(int \<times> pwm_entry) list \<Rightarrow> int \<times> pin_data \<Rightarrow> int \<times> pin_data" where
  "add_pwm_status pw = (\<lambda>(pin, d).
     case map_of pw pin of
       None \<Rightarrow> (pin, d)
     | Some info \<Rightarrow> (pin, d\<lparr>pd_pwm := Some (frequency info, duty_cycle info)\<rparr>))"

record pins_reply =
  pins :: "(int \<times> pin_data) list"
  valid_pins :: "int list"
  pwm_pins :: "int list"

definition get_pins :: "backend \<Rightarrow> driver \<Rightarrow> state \<Rightarrow> (exn + pins_reply) \<times> state" where
  "get_pins b drv s =
     (case bnd (for_each (get_pin_data b drv) VALID_PINS) (\<lambda>pins_data.
             bnd (gets pwm_devices) (\<lambda>pw.
               ret \<lparr>pins = map (add_pwm_status pw) pins_data,
                    valid_pins = VALID_PINS, pwm_pins = PWM_PINS\<rparr>)) s of
        (Inr r, s') \<Rightarrow> (Inr r, s')
      | (Inl e, s') \<Rightarrow> (Inl e, log_event (GetPinsError e) ''error'' s'))"

section \<open>Configuring a pin\<close>

definition set_entry :: "int \<Rightarrow> pin_entry \<Rightarrow> unit prog" where
  "set_entry pin st = modify (\<lambda>s. s\<lparr>pin_states := AList.update pin st (pin_states s)\<rparr>)"

definition configure_new_mode :: "backend \<Rightarrow> driver \<Rightarrow> int \<Rightarrow> string \<Rightarrow> string \<Rightarrow> unit prog" where
  "configure_new_mode b drv pin md pl =
     (case b of
        Gpiozero \<Rightarrow>
          if md = ''output'' then
            bnd (hw_new drv GzDevice (NewOutputDevice pin)) (\<lambda>dev.
              set_entry pin \<lparr>mode = ''output'', pvalue = 0, pull = ''off'', device = Some dev\<rparr>)
          else
            bnd (hw_new drv GzDevice
                   (NewInputDevice pin (if pl = ''off'' then None else Some (pl = ''up'')))) (\<lambda>dev.
              set_entry pin \<lparr>mode = ''input'', pvalue = 0, pull = pl, device = Some dev\<rparr>)
      | RPiGPIO \<Rightarrow>
          if md = ''output'' then
            sq (hw_unit drv (GpioSetupOut pin))
               (set_entry pin \<lparr>mode = ''output'', pvalue = 0, pull = ''off'', device = None\<rparr>)
          else
            sq (hw_unit drv (GpioSetupIn pin
                   (if pl = ''up'' then ''up'' else if pl = ''down'' then ''down'' else ''off'')))
               (set_entry pin \<lparr>mode = ''input'', pvalue = 0, pull = pl, device = None\<rparr>)
      | Mock \<Rightarrow>
          \<comment> \<open>\<^verbatim>\<open>getattr(GPIO, mode.upper())\<close>: MockGPIO has IN and OUT, no INPUT or OUTPUT\<close>
          raise (AttributeError md))"

definition set_pin_mode :: "backend \<Rightarrow> driver \<Rightarrow> request \<Rightarrow> state \<Rightarrow> response \<times> state" where
  "set_pin_mode b drv data =
     handler ConfigError
       (bnd (subscript ''pin'' (data_pin data)) (\<lambda>pin.
        bnd (subscript ''mode'' (data_mode data)) (\<lambda>md.
        bnd (get_default ''pull'' ''off'' (data_pull data)) (\<lambda>pl.
          if pin \<notin> set VALID_PINS then ret (Error400 (InvalidPin pin))
          else if md \<notin> set [''input'', ''output''] then ret (Error400 (InvalidMode md))
          else
            sq (modify (cleanup_pin drv pin))
            (sq (configure_new_mode b drv pin md pl)
            (sq (log (PinConfigured pin md
                        (if md = ''input'' \<and> pl \<noteq> ''off'' then pl else [])) ''info'')
                (ret Success)))))))"

section \<open>Writing to an output pin\<close>

definition is_mode :: "state \<Rightarrow> int \<Rightarrow> string \<Rightarrow> bool" where
  "is_mode s pin md = (case map_of (pin_states s) pin of None \<Rightarrow> False | Some st \<Rightarrow> mode st = md)"

definition set_value :: "int \<Rightarrow> int \<Rightarrow> unit prog" where
  "set_value pin v =
     bnd (gets pin_states) (\<lambda>ps.
       case map_of ps pin of
         None \<Rightarrow> raise (KeyError ''pin'')
       | Some st \<Rightarrow> set_entry pin (st\<lparr>pvalue := v\<rparr>))"

text \<open>
  One level change of an output pin: \<^verbatim>\<open>device.on()\<close> or \<^verbatim>\<open>device.off()\<close> with
  gpiozero, \<^verbatim>\<open>GPIO.output\<close> otherwise.
\<close>

definition drive :: "backend \<Rightarrow> driver \<Rightarrow> int \<Rightarrow> handle option \<Rightarrow> int \<Rightarrow> unit prog" where
  "drive b drv pin dev v =
     (case b of
        Gpiozero \<Rightarrow>
          (case dev of
             None \<Rightarrow> raise (AttributeError ''NoneType'')
           | Some d \<Rightarrow> hw_unit drv (if v \<noteq> 0 then DevOn d else DevOff d))
      | RPiGPIO \<Rightarrow> hw_unit drv (GpioOutput pin (if v \<noteq> 0 then 1 else 0))
      | Mock \<Rightarrow> mock_output pin v)"

fun pulse_loop :: "backend \<Rightarrow> driver \<Rightarrow> int \<Rightarrow> handle option \<Rightarrow> rat \<Rightarrow> nat \<Rightarrow> unit prog" where
  "pulse_loop b drv pin dev duration 0 = ret ()"
| "pulse_loop b drv pin dev duration (Suc n) =
     sq (drive b drv pin dev 1)
    (sq (sleep duration)
    (sq (drive b drv pin dev 0)
    (sq (sleep duration)
        (pulse_loop b drv pin dev duration n))))"

text \<open>\<^verbatim>\<open>device = pin_states[pin]['device']\<close>, read in the gpiozero branches only.\<close>

definition device_of :: "backend \<Rightarrow> int \<Rightarrow> handle option prog" where
  "device_of b pin =
     (if b = Gpiozero then
        bnd (gets pin_states) (\<lambda>ps.
          case map_of ps pin of
            None \<Rightarrow> raise (KeyError ''pin'')
          | Some st \<Rightarrow> ret (device st))
      else ret None)"

definition write_pin :: "backend \<Rightarrow> driver \<Rightarrow> request \<Rightarrow> state \<Rightarrow> response \<times> state" where
  "write_pin b drv data =
     handler WriteError
       (bnd (subscript ''pin'' (data_pin data)) (\<lambda>pin.
        bnd (subscript ''action'' (data_action data)) (\<lambda>action.
        bnd (gets (\<lambda>s. is_mode s pin ''output'')) (\<lambda>is_output.
          if \<not> is_output then ret (Error400 (NotOutput pin))
          else if action \<in> set [''high'', ''low''] then
            bnd (device_of b pin) (\<lambda>dev.
            sq (drive b drv pin dev (if action = ''high'' then 1 else 0))
           (sq (set_value pin (if action = ''high'' then 1 else 0))
           (sq (log (PinSet pin action) ''info'')
               (ret Success))))
          else if action = ''pulse'' then
            bnd (get_default ''duration'' 100 (data_duration data)) (\<lambda>duration_ms.
            bnd (get_default ''loops'' 5 (data_loops data)) (\<lambda>loops.
            bnd (device_of b pin) (\<lambda>dev.
            sq (pulse_loop b drv pin dev (duration_ms / 1000) (nat loops))
           (sq (set_value pin 0)
           (sq (log (PinPulsed pin (duration_ms / 1000 * 1000)) ''info'')
               (ret Success))))))
          else ret (Error400 (InvalidAction action))))))"

section \<open>PWM control\<close>

definition modify_pwm_info :: "int \<Rightarrow> (pwm_entry \<Rightarrow> pwm_entry) \<Rightarrow> unit prog" where
  "modify_pwm_info pin f =
     modify (\<lambda>s. case map_of (pwm_devices s) pin of
                    None \<Rightarrow> s
                  | Some info \<Rightarrow> s\<lparr>pwm_devices := AList.update pin (f info) (pwm_devices s)\<rparr>)"

text \<open>The backend branches of the \<^verbatim>\<open>start\<close> action: the new PWM object, started.\<close>

definition start_pwm_device :: "backend \<Rightarrow> driver \<Rightarrow> int \<Rightarrow> rat \<Rightarrow> rat \<Rightarrow> handle prog" where
  "start_pwm_device b drv pin freq duty =
     (case b of
        Gpiozero \<Rightarrow>
          bnd (hw_new drv GzDevice (NewPWMOutputDevice pin freq)) (\<lambda>d.
          sq (hw_unit drv (SetValue d (duty / 100))) (ret d))
      | RPiGPIO \<Rightarrow>
          sq (hw_unit drv (GpioSetupOut pin))
         (bnd (hw_new drv RpiPwm (GpioPWM pin freq)) (\<lambda>d.
          sq (hw_unit drv (PwmStart d duty)) (ret d)))
      | Mock \<Rightarrow>
          bnd (mock_PWM pin freq) (\<lambda>d. mock_pwm_method))"

definition stop_pwm_device :: "backend \<Rightarrow> driver \<Rightarrow> handle \<Rightarrow> unit prog" where
  "stop_pwm_device b drv d =
     (case b of
        Gpiozero \<Rightarrow> hw_unit drv (Close d)
      | RPiGPIO \<Rightarrow> hw_unit drv (PwmStop d)
      | Mock \<Rightarrow> mock_pwm_method)"

definition pwm_start :: "backend \<Rightarrow> driver \<Rightarrow> request \<Rightarrow> int \<Rightarrow> response prog" where
  "pwm_start b drv data pin =
     bnd (get_default ''frequency'' 1000 (data_frequency data)) (\<lambda>freq.
     bnd (get_default ''duty_cycle'' 50 (data_duty_cycle data)) (\<lambda>duty.
       if duty < 0 \<or> duty > 100 then ret (Error400 DutyCycleRange)
       else
         sq (bnd (gets pwm_devices) (\<lambda>pw.
               case map_of pw pin of
                 None \<Rightarrow> ret ()
               | Some info \<Rightarrow>
                   if has_close (pwm_device info) then hw_unit drv (Close (pwm_device info))
                   else ret ()))
        (sq (modify (cleanup_pin drv pin))
        (bnd (start_pwm_device b drv pin freq duty) (\<lambda>d.
         sq (modify (\<lambda>s. s\<lparr>pwm_devices :=
                 AList.update pin \<lparr>pwm_device = d, frequency = freq, duty_cycle = duty\<rparr>
                   (pwm_devices s)\<rparr>))
        (sq (log (PwmStarted pin freq duty) ''info'')
            (ret Success)))))))"

definition pwm_stop :: "backend \<Rightarrow> driver \<Rightarrow> int \<Rightarrow> response prog" where
  "pwm_stop b drv pin =
     bnd (gets pwm_devices) (\<lambda>pw.
       case map_of pw pin of
         None \<Rightarrow> ret Success
       | Some info \<Rightarrow>
           sq (stop_pwm_device b drv (pwm_device info))
          (sq (modify (\<lambda>s. s\<lparr>pwm_devices := AList.delete pin (pwm_devices s)\<rparr>))
          (sq (log (PwmStopped pin) ''info'')
              (ret Success))))"

definition pwm_update :: "backend \<Rightarrow> driver \<Rightarrow> request \<Rightarrow> int \<Rightarrow> response prog" where
  "pwm_update b drv data pin =
     bnd (gets pwm_devices) (\<lambda>pw.
       case map_of pw pin of
         None \<Rightarrow> ret (Error400 (PwmNotActive pin))
       | Some info \<Rightarrow>
           sq (if data_frequency data = Missing then ret ()
               else
                 bnd (subscript ''frequency'' (data_frequency data)) (\<lambda>freq.
                 sq (modify_pwm_info pin (\<lambda>i. i\<lparr>frequency := freq\<rparr>))
                    (if b = Gpiozero then hw_unit drv (SetFrequency (pwm_device info) freq)
                     else ret ())))
              (if data_duty_cycle data = Missing then ret Success
               else
                 bnd (subscript ''duty_cycle'' (data_duty_cycle data)) (\<lambda>duty.
                   if duty < 0 \<or> duty > 100 then ret (Error400 DutyCycleRange)
                   else
                     sq (modify_pwm_info pin (\<lambda>i. i\<lparr>duty_cycle := duty\<rparr>))
                    (sq (case b of
                           Gpiozero \<Rightarrow> hw_unit drv (SetValue (pwm_device info) (duty / 100))
                         | RPiGPIO \<Rightarrow> hw_unit drv (ChangeDutyCycle (pwm_device info) duty)
                         | Mock \<Rightarrow> ret ())
                    (sq (log (PwmUpdated pin duty) ''info'')
                        (ret Success))))))"

definition control_pwm :: "backend \<Rightarrow> driver \<Rightarrow> request \<Rightarrow> state \<Rightarrow> response \<times> state" where
  "control_pwm b drv data =
     handler PwmError
       (bnd (subscript ''pin'' (data_pin data)) (\<lambda>pin.
        bnd (subscript ''action'' (data_action data)) (\<lambda>action.
          if pin \<notin> set VALID_PINS then ret (Error400 (InvalidPin pin))
          else if action = ''start'' then pwm_start b drv data pin
          else if action = ''stop'' then pwm_stop b drv pin
          else if action = ''update'' then pwm_update b drv data pin
          else ret Success)))"

section \<open>Monitoring\<close>

definition toggle_monitor :: "request \<Rightarrow> state \<Rightarrow> response \<times> state" where
  "toggle_monitor data =
     handler MonitorError
       (bnd (subscript ''pin'' (data_pin data)) (\<lambda>pin.
        bnd (gets (\<lambda>s. is_mode s pin ''input'')) (\<lambda>is_input.
          if \<not> is_input then ret (Error400 (NotInput pin))
          else
            sq (if (case data_enable data of None \<Rightarrow> True | Some e \<Rightarrow> e) then
                  sq (modify (\<lambda>s. s\<lparr>input_monitors :=
                         (if pin \<in> set (input_monitors s) then input_monitors s
                          else input_monitors s @ [pin])\<rparr>))
                     (log (MonitorStarted pin) ''info'')
                else
                  sq (modify (\<lambda>s. s\<lparr>input_monitors := removeAll pin (input_monitors s)\<rparr>))
                     (log (MonitorStopped pin) ''info''))
               (bnd (gets (\<lambda>s. pin \<in> set (input_monitors s))) (\<lambda>m. ret (Monitoring m))))))"

definition reset_all_pins :: "backend \<Rightarrow> driver \<Rightarrow> state \<Rightarrow> response \<times> state" where
  "reset_all_pins b drv =
     handler ResetError
       (sq (modify (\<lambda>s. s\<lparr>input_monitors := []\<rparr>))
       (sq (modify (cleanup_all b drv))
       (sq (log ResetDone ''info'')
           (ret Success))))"

text \<open>
  The body of the \<^verbatim>\<open>for pin in list(input_monitors)\<close> loop of
  \<^verbatim>\<open>input_monitor_worker\<close>; \<open>prev\<close> is the local dictionary
  \<^verbatim>\<open>previous_states\<close>.
\<close>

definition monitor_pin :: "backend \<Rightarrow> driver \<Rightarrow> int \<Rightarrow> (int \<rightharpoonup> int) \<times> state \<Rightarrow> (int \<rightharpoonup> int) \<times> state" where
  "monitor_pin b drv pin = (\<lambda>(prev, s).
     if is_mode s pin ''input'' then
       (case read_pin_value b drv pin s of
          (Inl e, s') \<Rightarrow> (prev, log_event (MonitorPinError pin e) ''error'' s')
        | (Inr current_value, s') \<Rightarrow>
            (let previous_value = (case prev pin of None \<Rightarrow> current_value | Some v \<Rightarrow> v) in
             if current_value \<noteq> previous_value then
               (prev(pin \<mapsto> current_value),
                log_event (EdgeDetected pin
                   (if current_value > previous_value then ''rising'' else ''falling'')
                   current_value) ''input'' s')
             else (prev, s')))
     else (prev, s))"

text \<open>One pass of the \<^verbatim>\<open>while monitor_running\<close> loop: all monitored pins, then the sleep.\<close>

definition monitor_poll :: "backend \<Rightarrow> driver \<Rightarrow> (int \<rightharpoonup> int) \<times> state \<Rightarrow> (int \<rightharpoonup> int) \<times> state" where
  "monitor_poll b drv = (\<lambda>(prev, s).
     case fold (monitor_pin b drv) (input_monitors s) (prev, s) of
       (prev', s') \<Rightarrow> (prev', snd (sleep (1 / 10) s')))"

text \<open>
  The worker thread for at most \<open>n\<close> passes; it leaves the loop when
  \<^verbatim>\<open>monitor_running\<close> is false. The thread starts with an empty
  \<^verbatim>\<open>previous_states\<close>.
\<close>

fun monitor_loop :: "backend \<Rightarrow> driver \<Rightarrow> nat \<Rightarrow> (int \<rightharpoonup> int) \<times> state \<Rightarrow> (int \<rightharpoonup> int) \<times> state" where
  "monitor_loop b drv 0 ps = ps"
| "monitor_loop b drv (Suc n) ps =
     (if monitor_running (snd ps) then monitor_loop b drv n (monitor_poll b drv ps) else ps)"

definition input_monitor_worker :: "backend \<Rightarrow> driver \<Rightarrow> nat \<Rightarrow> state \<Rightarrow> state" where
  "input_monitor_worker b drv n s = snd (monitor_loop b drv n (Map.empty, s))"

definition init_app :: "state \<Rightarrow> state" where
  "init_app s = log_event ControllerStarted ''info'' (s\<lparr>monitor_running := True\<rparr>)"

section \<open>Observations on a run\<close>

text \<open>The events of one level, and the external calls a step added to the log.\<close>

definition events_of_level :: "string \<Rightarrow> state \<Rightarrow> msg list" where
  "events_of_level l s = map message (filter (\<lambda>e. level e = l) (event_queue s))"

definition new_calls :: "state \<Rightarrow> state \<Rightarrow> hw_call list" where
  "new_calls s s' = map fst (drop (length (hw_log s)) (hw_log s'))"

fun is_returns :: "reply \<Rightarrow> bool" where
  "is_returns (Returns v) = True"
| "is_returns (Raises e) = False"

text \<open>How often a call was made and returned.\<close>

definition returned :: "hw_call \<Rightarrow> state \<Rightarrow> nat" where
  "returned c s = length (filter (\<lambda>cr. fst cr = c \<and> is_returns (snd cr)) (hw_log s))"

section \<open>Drivers and requests of the scenarios\<close>

text \<open>A driver whose calls all return, one whose \<^verbatim>\<open>close\<close> raises, and a scripted one.\<close>

definition ok_driver :: driver where
  "ok_driver k c = Returns 0"

definition close_fails :: driver where
  "close_fails k c = (case c of Close h \<Rightarrow> Raises ''close failed'' | _ \<Rightarrow> Returns 0)"

definition scripted :: "reply list \<Rightarrow> driver" where
  "scripted rs k c = (if k < length rs then rs ! k else Returns 0)"

definition configure :: "int \<Rightarrow> string \<Rightarrow> string \<Rightarrow> request" where
  "configure p m pl = no_data\<lparr>data_pin := Given p, data_mode := Given m, data_pull := Given pl\<rparr>"

definition monitor :: "int \<Rightarrow> bool \<Rightarrow> request" where
  "monitor p e = no_data\<lparr>data_pin := Given p, data_enable := Some e\<rparr>"

definition pwm :: "int \<Rightarrow> string \<Rightarrow> rat field \<Rightarrow> rat field \<Rightarrow> request" where
  "pwm p a f d = no_data\<lparr>data_pin := Given p, data_action := Given a,
     data_frequency := f, data_duty_cycle := d\<rparr>"

definition pulse :: "int \<Rightarrow> rat \<Rightarrow> int \<Rightarrow> request" where
  "pulse p d n = no_data\<lparr>data_pin := Given p, data_action := Given ''pulse'',
     data_duration := Given d, data_loops := Given n\<rparr>"

text \<open>The answers to the reads of the external calls, in order.\<close>

definition read_replies :: "state \<Rightarrow> reply list" where
  "read_replies s =
     map snd (filter (\<lambda>cr. case fst cr of GetValue h \<Rightarrow> True | GpioInput p \<Rightarrow> True | _ \<Rightarrow> False)
       (hw_log s))"

text \<open>
  Pin 17 configured as input with pull-down under gpiozero, monitored, the worker
  started. The scripted driver answers the five reads of the next five passes with
  0, 0, 1, 1, 0 (calls 1, 3, 5, 7 and 9; the others are the constructor and the sleeps).
\<close>

definition levels_driver :: driver where
  "levels_driver = scripted [Returns 0, Returns 0, Returns 0, Returns 0, Returns 0,
     Returns 1, Returns 0, Returns 1, Returns 0, Returns 0]"

definition monitored_17 :: state where
  "monitored_17 =
     init_app (snd (toggle_monitor (monitor 17 True)
       (snd (set_pin_mode Gpiozero levels_driver (configure 17 ''input'' ''down'')
          initial_state))))"

text \<open>PWM running on pin 18 at 1000 Hz and 50 percent, under gpiozero.\<close>

definition pwm_on_18 :: state where
  "pwm_on_18 =
     snd (control_pwm Gpiozero ok_driver (pwm 18 ''start'' (Given 1000) (Given 50))
       initial_state)"

text \<open>The mode the state query reports for a pin.\<close>

definition reported_mode :: "backend \<Rightarrow> driver \<Rightarrow> state \<Rightarrow> int \<Rightarrow> string option" where
  "reported_mode b drv s pin =
     (case fst (get_pins b drv s) of
        Inl e \<Rightarrow> None
      | Inr r \<Rightarrow> map_option pd_mode (map_of (pins r) pin))"







text \<open>A driver none of whose calls raises.\<close>

definition always_returns :: "driver \<Rightarrow> bool" where
  "always_returns drv = (\<forall>k c. is_returns (drv k c))"

text \<open>A request answered with status 400, and the PWM pins the state query reports.\<close>

definition is_rejected :: "response \<Rightarrow> bool" where
  "is_rejected r = (case r of Error400 e \<Rightarrow> True | _ \<Rightarrow> False)"

definition reported_pwm_pins :: "backend \<Rightarrow> driver \<Rightarrow> state \<Rightarrow> int list option" where
  "reported_pwm_pins b drv s =
     (case fst (get_pins b drv s) of Inl e \<Rightarrow> None | Inr r \<Rightarrow> Some (pwm_pins r))"


lemmas prog_defs = ret_def raise_def bnd_def sq_def gets_def modify_def hw_def hw_unit_def
  hw_new_def sleep_def log_def log_event_def put_nowait_def event_queue_maxsize_def
  handler_def subscript_def get_default_def

lemmas op_defs = cleanup_pin_body_def cleanup_pin_def gpio_cleanup_def cleanup_all_def
  read_pin_value_def set_entry_def configure_new_mode_def set_pin_mode_def is_mode_def
  set_value_def drive_def device_of_def write_pin_def modify_pwm_info_def
  start_pwm_device_def stop_pwm_device_def pwm_start_def pwm_stop_def pwm_update_def
  control_pwm_def toggle_monitor_def reset_all_pins_def monitor_pin_def monitor_poll_def
  input_monitor_worker_def init_app_def mock_output_def mock_input_def mock_PWM_def
  mock_pwm_method_def

lemmas scenario_defs = ok_driver_def close_fails_def scripted_def configure_def monitor_def
  pwm_def pulse_def no_data_def initial_state_def

section \<open>The event queue is unbounded\<close>

text \<open>
  C5 (the event bus is a bounded FIFO queue that drops the record being published when
  it is at capacity). The queue is built without a maximum size, so \<^verbatim>\<open>put_nowait\<close>
  never raises \<^verbatim>\<open>queue.Full\<close> and the \<^verbatim>\<open>except queue.Full\<close> branch of
  \<^verbatim>\<open>log_event\<close> is dead: whatever the queue holds, \<^verbatim>\<open>log_event\<close> appends the
  record at the end. The order is first in, first out and the producer never blocks, but
  no record is ever dropped and the length has no bound.
\<close>

theorem log_event_always_appends:
  "event_queue (log_event m l s) = event_queue s @ [\<lparr>message = m, level = l\<rparr>]
   \<and> length (event_queue (log_event m l s)) = Suc (length (event_queue s))"
  by (simp add: log_event_def put_nowait_def event_queue_maxsize_def)

section \<open>An unknown PWM action\<close>

text \<open>
  C9 (a pwm request whose action is not start, stop or update is rejected with an
  invalid-action error). \<^verbatim>\<open>control_pwm\<close> has no \<^verbatim>\<open>else\<close> branch after its three
  actions, unlike \<^verbatim>\<open>write_pin\<close>: for the action \<^verbatim>\<open>toggle\<close> on pin 18 it falls
  through to \<^verbatim>\<open>{'success': True}\<close>. Nothing is mutated and no hardware call is made,
  but the request is reported as a success.
\<close>

theorem pwm_unknown_action_reports_success:
  "control_pwm b drv (pwm 18 ''toggle'' f d) s = (Success, s)"
  by (simp add: prog_defs control_pwm_def pwm_def no_data_def VALID_PINS_def)

section \<open>The monitor never sees an edge\<close>

text \<open>
  C1 (for the observed values 0, 0, 1, 1, 0 the monitor emits one rising and one falling
  event). \<^verbatim>\<open>previous_states[pin]\<close> is assigned only inside the branch taken when the
  current value differs from the previous one, and the previous value defaults to the
  current one while the pin has no entry. The entry is therefore never created and the
  two values are always equal: on pin 17, reading 0, 0, 1, 1, 0 in five passes, the
  worker logs no event of level \<^verbatim>\<open>input\<close> at all.
\<close>

theorem monitor_emits_no_edge_event:
  "read_replies (input_monitor_worker Gpiozero levels_driver 5 monitored_17)
     = [Returns 0, Returns 0, Returns 1, Returns 1, Returns 0]
   \<and> events_of_level ''input'' (input_monitor_worker Gpiozero levels_driver 5 monitored_17) = []"
  by code_simp

section \<open>An update rejected after it has changed the frequency\<close>

text \<open>
  C2 (a validation failure leaves the state unchanged; an update with a duty cycle out
  of range leaves the stored frequency unchanged). The \<^verbatim>\<open>update\<close> action stores the
  new frequency and passes it to the device before it looks at the duty cycle. With PWM
  running on pin 18 at 1000 Hz, an update to 500 Hz and 101 percent is answered with the
  duty-cycle error, and the stored frequency is 500 Hz afterwards.
\<close>

theorem pwm_update_rejected_after_mutation:
  "map (\<lambda>pe. (fst pe, frequency (snd pe), duty_cycle (snd pe))) (pwm_devices pwm_on_18)
     = [(18, 1000, 50)]
   \<and> fst (control_pwm Gpiozero ok_driver (pwm 18 ''update'' (Given 500) (Given 101)) pwm_on_18)
     = Error400 DutyCycleRange
   \<and> map (\<lambda>pe. (fst pe, frequency (snd pe), duty_cycle (snd pe)))
       (pwm_devices (snd (control_pwm Gpiozero ok_driver
          (pwm 18 ''update'' (Given 500) (Given 101)) pwm_on_18)))
     = [(18, 500, 50)]
   \<and> new_calls pwm_on_18 (snd (control_pwm Gpiozero ok_driver
          (pwm 18 ''update'' (Given 500) (Given 101)) pwm_on_18))
     = [SetFrequency (GzDevice 0) 500]"
  by code_simp

section \<open>A PWM handle closed twice\<close>

text \<open>
  C4 (every handle is released exactly once on every release path; a start on a pin with
  active PWM releases the prior handle exactly once). The \<^verbatim>\<open>start\<close> action closes
  the old PWM device itself and then calls \<^verbatim>\<open>cleanup_pin\<close>, which finds the same
  entry still in \<^verbatim>\<open>pwm_devices\<close> and closes the device again. With PWM running on
  pin 18 (device 0), a second start makes two \<^verbatim>\<open>close\<close> calls on device 0, and both
  return.
\<close>

theorem pwm_restart_closes_twice:
  "map (\<lambda>pe. (fst pe, pwm_device (snd pe))) (pwm_devices pwm_on_18) = [(18, GzDevice 0)]
   \<and> returned (Close (GzDevice 0)) pwm_on_18 = 0
   \<and> returned (Close (GzDevice 0))
       (snd (control_pwm Gpiozero ok_driver (pwm 18 ''start'' (Given 1000) (Given 50))
          pwm_on_18)) = 2"
  by code_simp

section \<open>A release that raises\<close>

text \<open>
  C8 (reset removes every entry; a release error on one pin does not prevent the removal
  of that pin's entry, and the state query then reports every pin as unconfigured). In
  \<^verbatim>\<open>cleanup_pin\<close> the \<^verbatim>\<open>del\<close> follows the \<^verbatim>\<open>close\<close> inside the same
  \<^verbatim>\<open>try\<close>: when \<^verbatim>\<open>close\<close> raises, the error is logged and the entry stays. With
  pin 17 configured as output under gpiozero and a device whose \<^verbatim>\<open>close\<close> raises,
  reset answers success, the monitor set is empty, the error is logged, and pin 17 is
  still registered and reported as an output.
\<close>

theorem reset_keeps_entry_when_close_raises:
  "fst (reset_all_pins Gpiozero close_fails
          (snd (set_pin_mode Gpiozero close_fails (configure 17 ''output'' ''off'') initial_state)))
     = Success
   \<and> input_monitors (snd (reset_all_pins Gpiozero close_fails
          (snd (set_pin_mode Gpiozero close_fails (configure 17 ''output'' ''off'') initial_state))))
     = []
   \<and> events_of_level ''error'' (snd (reset_all_pins Gpiozero close_fails
          (snd (set_pin_mode Gpiozero close_fails (configure 17 ''output'' ''off'') initial_state))))
     = [CleanupPinError 17 (DriverError ''close failed'')]
   \<and> map fst (pin_states (snd (reset_all_pins Gpiozero close_fails
          (snd (set_pin_mode Gpiozero close_fails (configure 17 ''output'' ''off'') initial_state)))))
     = [17]
   \<and> reported_mode Gpiozero close_fails (snd (reset_all_pins Gpiozero close_fails
          (snd (set_pin_mode Gpiozero close_fails (configure 17 ''output'' ''off'') initial_state))))
       17 = Some ''output''"
  by code_simp

text \<open>
  C6 (a pin never has both a pin state and a PWM state). The same \<^verbatim>\<open>try\<close> block of
  \<^verbatim>\<open>cleanup_pin\<close> decides this claim: with pin 18 configured as output under
  gpiozero and a device whose \<^verbatim>\<open>close\<close> raises, a PWM start on pin 18 logs the
  cleanup error, keeps the entry of \<^verbatim>\<open>pin_states\<close> and adds one to
  \<^verbatim>\<open>pwm_devices\<close>.
\<close>

theorem pwm_start_keeps_pin_state_when_close_raises:
  "fst (control_pwm Gpiozero close_fails (pwm 18 ''start'' (Given 1000) (Given 50))
          (snd (set_pin_mode Gpiozero close_fails (configure 18 ''output'' ''off'') initial_state)))
     = Success
   \<and> map fst (pin_states (snd (control_pwm Gpiozero close_fails
          (pwm 18 ''start'' (Given 1000) (Given 50))
          (snd (set_pin_mode Gpiozero close_fails (configure 18 ''output'' ''off'') initial_state)))))
     = [18]
   \<and> map fst (pwm_devices (snd (control_pwm Gpiozero close_fails
          (pwm 18 ''start'' (Given 1000) (Given 50))
          (snd (set_pin_mode Gpiozero close_fails (configure 18 ''output'' ''off'') initial_state)))))
     = [18]"
  by code_simp

section \<open>The monitor set\<close>






















section \<open>Pulses\<close>

text \<open>What the driver calls of a pulse leave behind when none of them raises.\<close>

lemma hw_unit_returns:
  "is_returns (drv (length (hw_log s)) c) \<Longrightarrow>
   hw_unit drv c s = (Inr (), s\<lparr>hw_log := hw_log s @ [(c, drv (length (hw_log s)) c)]\<rparr>)"
  by (cases "drv (length (hw_log s)) c") (simp_all add: hw_unit_def hw_def bnd_def ret_def)











section \<open>PWM start on any valid pin\<close>

lemma hw_returns:
  "is_returns (drv (length (hw_log s)) c) \<Longrightarrow>
   \<exists>v. hw drv c s = (Inr v, s\<lparr>hw_log := hw_log s @ [(c, Returns v)]\<rparr>)"
  by (cases "drv (length (hw_log s)) c") (simp_all add: hw_def)

lemma hw_new_returns:
  "always_returns drv \<Longrightarrow>
   \<exists>s'. hw_new drv mk c s = (Inr (mk (length (hw_log s))), s')
      \<and> pin_states s' = pin_states s \<and> pwm_devices s' = pwm_devices s"
  using hw_returns [of drv s c]
  by (auto simp: always_returns_def hw_new_def bnd_def gets_def ret_def)

lemma hw_unit_keeps:
  "always_returns drv \<Longrightarrow>
   \<exists>s'. hw_unit drv c s = (Inr (), s')
      \<and> pin_states s' = pin_states s \<and> pwm_devices s' = pwm_devices s"
  by (simp add: always_returns_def hw_unit_returns)

lemma start_pwm_device_returns:
  assumes "always_returns drv" and "b = Gpiozero \<or> b = RPiGPIO"
  shows "\<exists>h s'. start_pwm_device b drv p f d s = (Inr h, s')
           \<and> pin_states s' = pin_states s \<and> pwm_devices s' = pwm_devices s"
proof -
  from assms(2) show ?thesis
  proof
    assume b: "b = Gpiozero"
    obtain s1 where s1: "hw_new drv GzDevice (NewPWMOutputDevice p f) s = (Inr (GzDevice (length (hw_log s))), s1)"
      "pin_states s1 = pin_states s" "pwm_devices s1 = pwm_devices s"
      using hw_new_returns [OF assms(1)] by blast
    obtain s2 where s2: "hw_unit drv (SetValue (GzDevice (length (hw_log s))) (d / 100)) s1 = (Inr (), s2)"
      "pin_states s2 = pin_states s1" "pwm_devices s2 = pwm_devices s1"
      using hw_unit_keeps [OF assms(1)] by blast
    show ?thesis by (simp add: b start_pwm_device_def bnd_def sq_def ret_def s1 s2)
  next
    assume b: "b = RPiGPIO"
    obtain s1 where s1: "hw_unit drv (GpioSetupOut p) s = (Inr (), s1)"
      "pin_states s1 = pin_states s" "pwm_devices s1 = pwm_devices s"
      using hw_unit_keeps [OF assms(1)] by blast
    obtain s2 where s2: "hw_new drv RpiPwm (GpioPWM p f) s1 = (Inr (RpiPwm (length (hw_log s1))), s2)"
      "pin_states s2 = pin_states s1" "pwm_devices s2 = pwm_devices s1"
      using hw_new_returns [OF assms(1)] by blast
    obtain s3 where s3: "hw_unit drv (PwmStart (RpiPwm (length (hw_log s1))) d) s2 = (Inr (), s3)"
      "pin_states s3 = pin_states s2" "pwm_devices s3 = pwm_devices s2"
      using hw_unit_keeps [OF assms(1)] by blast
    show ?thesis by (simp add: b start_pwm_device_def bnd_def sq_def ret_def s1 s2 s3)
  qed
qed

lemma cleanup_pin_removes:
  assumes "always_returns drv"
  shows "map_of (pin_states (cleanup_pin drv p s)) p = None
       \<and> map_of (pwm_devices (cleanup_pin drv p s)) p = None"
  using assms
  by (auto simp: cleanup_pin_def cleanup_pin_body_def sq_def bnd_def gets_def ret_def modify_def
      hw_unit_returns always_returns_def delete_conv' split: option.splits)

lemma old_pwm_close_returns:
  assumes "always_returns drv"
  shows "\<exists>s'. bnd (gets pwm_devices) (\<lambda>pw.
               case map_of pw p of
                 None \<Rightarrow> ret ()
               | Some info \<Rightarrow>
                   if has_close (pwm_device info) then hw_unit drv (Close (pwm_device info))
                   else ret ()) s = (Inr (), s')"
  using assms
  by (auto simp: bnd_def gets_def ret_def hw_unit_returns always_returns_def split: option.splits)

lemma pwm_start_not_rejected:
  assumes "p \<in> set VALID_PINS" and "0 \<le> d" and "d \<le> 100"
  shows "\<not> is_rejected (fst (control_pwm b drv (pwm p ''start'' (Given f) (Given d)) s))"
  using assms
  by (auto simp: control_pwm_def pwm_start_def handler_def bnd_def sq_def subscript_def
      get_default_def ret_def modify_def log_def pwm_def no_data_def is_rejected_def
      split: prod.splits sum.splits)

lemma pwm_start_succeeds:
  assumes "p \<in> set VALID_PINS" and "0 \<le> d" and "d \<le> 100"
    and drv: "always_returns drv" and b: "b = Gpiozero \<or> b = RPiGPIO"
  shows "fst (control_pwm b drv (pwm p ''start'' (Given f) (Given d)) s) = Success
    \<and> map_option (\<lambda>e. (frequency e, duty_cycle e))
        (map_of (pwm_devices (snd (control_pwm b drv (pwm p ''start'' (Given f) (Given d)) s))) p)
        = Some (f, d)
    \<and> map_of (pin_states (snd (control_pwm b drv (pwm p ''start'' (Given f) (Given d)) s))) p = None"
proof -
  obtain s1 where s1: "bnd (gets pwm_devices) (\<lambda>pw.
               case map_of pw p of
                 None \<Rightarrow> ret ()
               | Some info \<Rightarrow>
                   if has_close (pwm_device info) then hw_unit drv (Close (pwm_device info))
                   else ret ()) s = (Inr (), s1)"
    using old_pwm_close_returns [OF drv] by blast
  define s2 where "s2 = cleanup_pin drv p s1"
  have s2: "map_of (pin_states s2) p = None"
    using cleanup_pin_removes [OF drv] by (simp add: s2_def)
  obtain h s3 where s3: "start_pwm_device b drv p f d s2 = (Inr h, s3)"
      "pin_states s3 = pin_states s2" "pwm_devices s3 = pwm_devices s2"
    using start_pwm_device_returns [OF drv b] by blast
  define s4 where "s4 = log_event (PwmStarted p f d) ''info''
     (s3\<lparr>pwm_devices := AList.update p \<lparr>pwm_device = h, frequency = f, duty_cycle = d\<rparr> (pwm_devices s3)\<rparr>)"
  have run: "control_pwm b drv (pwm p ''start'' (Given f) (Given d)) s = (Success, s4)"
    using assms(1-3) s1 s3(1)
    by (simp add: control_pwm_def pwm_start_def handler_def bnd_def sq_def subscript_def
        get_default_def ret_def modify_def log_def pwm_def no_data_def s2_def s4_def)
  show ?thesis
    by (simp add: run s4_def log_event_def put_nowait_def event_queue_maxsize_def update_conv' s3 s2)
qed

lemma reported_pwm_pins_cases:
  "reported_pwm_pins b drv s = None \<or> reported_pwm_pins b drv s = Some PWM_PINS"
  by (auto simp: reported_pwm_pins_def get_pins_def bnd_def gets_def ret_def split: prod.splits sum.splits)

text \<open>
  C10 (a PWM start is accepted on every valid pin, whether or not the pin is in
  \<^verbatim>\<open>PWM_PINS\<close>). For a valid pin outside \<^verbatim>\<open>PWM_PINS\<close> and a duty cycle between 0
  and 100, the start is never answered with status 400; under gpiozero and RPi.GPIO,
  when no driver call raises, it is answered with success and the PWM parameters are
  recorded for the pin (and the pin has no entry in \<^verbatim>\<open>pin_states\<close>). The state
  query, when it answers, reports \<^verbatim>\<open>PWM_PINS\<close>; no handler reads it.
\<close>

theorem pwm_start_ignores_pwm_pins:
  assumes "p \<in> set VALID_PINS" and "p \<notin> set PWM_PINS" and "0 \<le> d" and "d \<le> 100"
  shows "\<not> is_rejected (fst (control_pwm b drv (pwm p ''start'' (Given f) (Given d)) s))
    \<and> (always_returns drv \<and> (b = Gpiozero \<or> b = RPiGPIO) \<longrightarrow>
         fst (control_pwm b drv (pwm p ''start'' (Given f) (Given d)) s) = Success
         \<and> map_option (\<lambda>e. (frequency e, duty_cycle e))
             (map_of (pwm_devices (snd (control_pwm b drv (pwm p ''start'' (Given f) (Given d)) s))) p)
             = Some (f, d)
         \<and> map_of (pin_states (snd (control_pwm b drv (pwm p ''start'' (Given f) (Given d)) s))) p
             = None)
    \<and> (reported_pwm_pins b drv s = None \<or> reported_pwm_pins b drv s = Some PWM_PINS)"
    (is "?R \<and> (?A \<longrightarrow> ?S) \<and> ?Q")
proof -
  have r: ?R by (rule pwm_start_not_rejected [OF assms(1,3,4)])
  have s: "?A \<longrightarrow> ?S"
  proof
    assume a: ?A
    show ?S by (rule pwm_start_succeeds [OF assms(1,3,4) conjunct1 [OF a] conjunct2 [OF a]])
  qed
  have q: ?Q by (rule reported_pwm_pins_cases)
  show ?thesis by (rule conjI [OF r conjI [OF s q]])
qed


theorem pwm_start_ignores_pwm_pins_witness:
  "17 \<in> set VALID_PINS \<and> 17 \<notin> set PWM_PINS \<and> always_returns ok_driver
   \<and> \<not> is_rejected (fst (control_pwm Gpiozero ok_driver
          (pwm 17 ''start'' (Given 1000) (Given 100)) initial_state))
   \<and> fst (control_pwm Gpiozero ok_driver (pwm 17 ''start'' (Given 1000) (Given 100)) initial_state)
       = Success
   \<and> map_option (\<lambda>e. (frequency e, duty_cycle e))
       (map_of (pwm_devices (snd (control_pwm Gpiozero ok_driver
          (pwm 17 ''start'' (Given 1000) (Given 100)) initial_state))) 17)
       = Some (1000, 100)
   \<and> reported_pwm_pins Gpiozero ok_driver initial_state = Some PWM_PINS"
proof -
  have v: "17 \<in> set VALID_PINS" by (simp add: VALID_PINS_def)
  have n: "17 \<notin> set PWM_PINS" by (simp add: PWM_PINS_def)
  have lo: "(0::rat) \<le> 100" by simp
  have hi: "(100::rat) \<le> 100" by simp
  have drv: "always_returns ok_driver" by (simp add: always_returns_def ok_driver_def)
  have rep: "reported_pwm_pins Gpiozero ok_driver initial_state = Some PWM_PINS" by code_simp
  show ?thesis
    using v n drv rep
      pwm_start_ignores_pwm_pins [OF v n lo hi, where b = Gpiozero and drv = ok_driver
        and f = 1000 and s = initial_state]
    by (simp add: is_rejected_def)
qed

end
